theory Spec2Isabelle
  imports
    Main
    "HOL-Library.AList"
    "HOL-Library.Word"
    "HOL-Library.Multiset"
    "HOL-Library.Char_ord"
    "HOL-Library.List_Lexorder"
    "HOL-Library.Product_Lexorder"
begin

section \<open>Twitter media upload node: a model of \<open>TwitterMediaUpload.execute\<close>\<close>

text \<open>
  The node's \<open>execute\<close> method (nodes/Twitter/TwitterMediaUpload.node.ts) validates the
  OAuth credentials once, then walks over the input items; for each item it resolves a
  binary attachment, checks its mime type, asks the OAuth helper for an authorization
  header, fills a multipart form, sends one POST and classifies the response. Exceptions
  are values of type \<open>error\<close>; each \<open>throw\<close> is an \<open>Inl\<close> branch, each
  \<open>try/catch\<close> a case distinction on the sum. The network, the host engine, the OAuth
  helper of \<open>./TwitterUtils\<close>, the NodeApiError constructor of n8n-workflow and
  \<open>JSON.parse\<close> are fields of the \<open>context\<close> record, so every theorem holds for
  whatever they answer. Console logging has no effect on the result and is left out.
\<close>

subsection \<open>JavaScript strings\<close>

text \<open>
  A string is the list of its code units; the model covers code units below 256. The white
  space that \<open>String.prototype.trim\<close> and \<open>Number\<close> strip is, in that range, TAB, LF,
  VT, FF, CR, SP and NBSP.
\<close>

definition startsWith :: "string \<Rightarrow> string \<Rightarrow> bool" where
  "startsWith s p = (take (length p) s = p)"

definition is_whitespace :: "char \<Rightarrow> bool" where
  "is_whitespace c =
     (c \<in> set [CHR 0x09, CHR 0x0A, CHR 0x0B, CHR 0x0C, CHR 0x0D, CHR 0x20, CHR 0xA0])"

definition trim :: "string \<Rightarrow> string" where
  "trim s = rev (dropWhile is_whitespace (rev (dropWhile is_whitespace s)))"

text \<open>\<open>s.split(sep)\<close> for a one-character separator: \<open>''''.split('','')\<close> is \<open>['''']\<close>.\<close>

fun split_str :: "char \<Rightarrow> string \<Rightarrow> string list" where
  "split_str sep [] = [[]]"
| "split_str sep (c # cs) =
     (if c = sep then [] # split_str sep cs
      else (case split_str sep cs of
              [] \<Rightarrow> [[c]]
            | w # ws \<Rightarrow> (c # w) # ws))"

fun join_str :: "string \<Rightarrow> string list \<Rightarrow> string" where
  "join_str sep [] = []"
| "join_str sep [x] = x"
| "join_str sep (x # y # ys) = x @ sep @ join_str sep (y # ys)"

definition is_digit :: "char \<Rightarrow> bool" where
  "is_digit c = (c \<in> set ''0123456789'')"

definition digit_char :: "nat \<Rightarrow> char" where
  "digit_char d = ''0123456789'' ! d"

text \<open>
  \<open>String(n)\<close> for the length of a Buffer: a non-negative integer below \<open>2^53\<close>, which
  JavaScript prints as plain decimal digits.
\<close>

fun String_nat :: "nat \<Rightarrow> string" where
  "String_nat n =
     (if n < 10 then [digit_char n] else String_nat (n div 10) @ [digit_char (n mod 10)])"

declare String_nat.simps [simp del]

text \<open>
  \<open>isNaN(Number(s))\<close> for a string \<open>s\<close>: \<open>Number\<close> yields NaN exactly when \<open>s\<close> is
  not a StringNumericLiteral of ECMA-262 (optional white space around nothing, a signed
  decimal literal or \<open>Infinity\<close>, or an unsigned binary, octal or hexadecimal literal).
\<close>

definition all_digits :: "string \<Rightarrow> bool" where
  "all_digits s = (s \<noteq> [] \<and> list_all is_digit s)"

definition is_signed_integer :: "string \<Rightarrow> bool" where
  "is_signed_integer s =
     (case s of
        [] \<Rightarrow> False
      | c # r \<Rightarrow> if c = CHR ''+'' \<or> c = CHR ''-'' then all_digits r else all_digits s)"

definition is_exponent_opt :: "string \<Rightarrow> bool" where
  "is_exponent_opt s =
     (case s of
        [] \<Rightarrow> True
      | c # r \<Rightarrow> (c = CHR ''e'' \<or> c = CHR ''E'') \<and> is_signed_integer r)"

definition is_unsigned_decimal :: "string \<Rightarrow> bool" where
  "is_unsigned_decimal s =
     (s = ''Infinity'' \<or>
      (let ds = takeWhile is_digit s; r = dropWhile is_digit s in
       case r of
         [] \<Rightarrow> ds \<noteq> []
       | c # f \<Rightarrow>
           if c = CHR ''.''
           then (ds \<noteq> [] \<or> takeWhile is_digit f \<noteq> []) \<and> is_exponent_opt (dropWhile is_digit f)
           else ds \<noteq> [] \<and> is_exponent_opt r))"

definition is_decimal_literal :: "string \<Rightarrow> bool" where
  "is_decimal_literal s =
     (case s of
        [] \<Rightarrow> False
      | c # r \<Rightarrow>
          if c = CHR ''+'' \<or> c = CHR ''-'' then is_unsigned_decimal r else is_unsigned_decimal s)"

definition is_radix_literal :: "string \<Rightarrow> bool" where
  "is_radix_literal s =
     (case s of
        z # x # r \<Rightarrow>
          z = CHR ''0'' \<and> r \<noteq> [] \<and>
          ((x \<in> set ''xX'' \<and> list_all (\<lambda>c. c \<in> set ''0123456789abcdefABCDEF'') r) \<or>
           (x \<in> set ''oO'' \<and> list_all (\<lambda>c. c \<in> set ''01234567'') r) \<or>
           (x \<in> set ''bB'' \<and> list_all (\<lambda>c. c \<in> set ''01'') r))
      | _ \<Rightarrow> False)"

definition isNaN_Number :: "string \<Rightarrow> bool" where
  "isNaN_Number s =
     (let t = trim s in \<not> (t = [] \<or> is_decimal_literal t \<or> is_radix_literal t))"

subsection \<open>Values, errors and the host interface\<close>

text \<open>
  JavaScript values as far as the node handles them: what \<open>JSON.parse\<close> returns, plus
  \<open>undefined\<close>. Numbers are never inspected by the node.
\<close>

datatype json =
    JUndefined
  | JNull
  | JBool bool
  | JNum int
  | JStr string
  | JArr "json list"
  | JObj "(string \<times> json) list"

text \<open>
  The exceptions that reach the item boundary: the two n8n error classes the node throws
  itself, and \<open>ExternalError message body\<close> for anything a collaborator throws (host
  engine, OAuth helper, https, the constructors of n8n-workflow), with its message and the
  \<open>response.body\<close> it carries (\<open>JUndefined\<close> when it has none). A NodeApiError
  holds the message its constructor derived, and the error response and the http code it
  was constructed from.
\<close>

datatype error =
    NodeOperationError string
  | NodeApiError string json nat
  | ExternalError string json

type_synonym buffer = "8 word list"

text \<open>
  One binary attachment of an item (\<open>IBinaryData\<close>); \<open>buffer\<close> is the payload
  that \<open>helpers.getBinaryDataBuffer\<close> returns for it.
\<close>

record binary_data =
  mimeType :: "string option"
  fileName :: "string option"
  buffer :: buffer

text \<open>
  An input item: its optional mapping of named attachments, as the list of its entries in
  \<open>Object.keys\<close> order.
\<close>

record item =
  binary :: "(string \<times> binary_data) list option"

record oauth_credentials =
  consumerKey :: string
  consumerSecret :: string
  accessToken :: string
  accessSecret :: string

record auth_request =
  auth_url :: string
  auth_method :: string
  auth_params :: "(string \<times> string) list"

datatype form_field =
    FormField string string
  | FormFile string buffer string

record http_request =
  requestUrl :: string
  requestMethod :: string
  authorization :: string
  formData :: "form_field list"

record http_response =
  statusCode :: nat
  response_data :: string

text \<open>
  The execution context \<open>this\<close> together with the collaborators of the method.
  \<open>getNodeParameter\<close> throws when a parameter is not configured. \<open>generateAuthHeader\<close>
  is \<open>new OAuth1Helper(credentials, node).generateAuthHeader(options)\<close> of
  \<open>./TwitterUtils\<close>; it draws a fresh nonce and timestamp on every call, so it also
  depends on the item index. \<open>request\<close> is the https exchange of one item: the response
  once it has ended, or the error the promise rejects with. \<open>newNodeApiError\<close> is the
  constructor call \<open>new NodeApiError(node, body, {httpCode: statusCode})\<close> of
  n8n-workflow: the message the constructor derives from the body and the http code, or
  the exception the constructor itself throws (it is handed a number where it expects a
  string, and throws a TypeError for some codes and for a null body). \<open>bufferError\<close> is
  the error with which \<open>helpers.getBinaryDataBuffer\<close> rejects when the property it is
  asked for is not an attachment.
\<close>

record "context" =
  getCredentials :: "error + (string \<rightharpoonup> string) option"
  getInputData :: "item list"
  getNodeParameter :: "string \<Rightarrow> nat \<Rightarrow> error + string"
  continueOnFail :: bool
  generateAuthHeader :: "oauth_credentials \<Rightarrow> nat \<Rightarrow> auth_request \<Rightarrow> error + string"
  request :: "nat \<Rightarrow> http_request \<Rightarrow> error + http_response"
  JSON_parse :: "string \<Rightarrow> json option"
  newNodeApiError :: "json \<Rightarrow> nat \<Rightarrow> error + string"
  bufferError :: "nat \<Rightarrow> string \<Rightarrow> error"

subsection \<open>Credential validation (lines 81 to 102)\<close>

definition requiredFields :: "(string \<times> string) list" where
  "requiredFields =
     [(''consumerKey'', ''Consumer Key''),
      (''consumerSecret'', ''Access Token''),
      (''accessToken'', ''Access Token''),
      (''accessSecret'', ''Access Token Secret'')]"

text \<open>\<open>!credentials[field]?.toString()\<close>: the field is absent or the empty string.\<close>

definition missing_field :: "(string \<rightharpoonup> string) \<Rightarrow> string \<Rightarrow> bool" where
  "missing_field credentials field =
     (case credentials field of None \<Rightarrow> True | Some v \<Rightarrow> v = [])"

fun check_fields :: "(string \<rightharpoonup> string) \<Rightarrow> (string \<times> string) list \<Rightarrow> error + unit" where
  "check_fields credentials [] = Inr ()"
| "check_fields credentials ((field, label) # rest) =
     (if missing_field credentials field
      then Inl (NodeOperationError (''Missing required Twitter OAuth credential: '' @ label))
      else check_fields credentials rest)"

definition validate_credentials :: "context \<Rightarrow> error + (string \<rightharpoonup> string)" where
  "validate_credentials this =
     (case getCredentials this of
        Inl e \<Rightarrow> Inl e
      | Inr None \<Rightarrow> Inl (NodeOperationError ''No credentials provided'')
      | Inr (Some credentials) \<Rightarrow>
          (case check_fields credentials requiredFields of
             Inl e \<Rightarrow> Inl e
           | Inr _ \<Rightarrow> Inr credentials))"

subsection \<open>Resolving the attachment (lines 119 to 173)\<close>

text \<open>\<open>try { getNodeParameter(name, i) } catch { null }\<close>\<close>

definition try_parameter :: "context \<Rightarrow> string \<Rightarrow> nat \<Rightarrow> string option" where
  "try_parameter this name itemIndex =
     (case getNodeParameter this name itemIndex of Inl _ \<Rightarrow> None | Inr v \<Rightarrow> Some v)"

definition truthy :: "string option \<Rightarrow> bool" where
  "truthy v = (case v of None \<Rightarrow> False | Some s \<Rightarrow> s \<noteq> [])"

definition or_else :: "string option \<Rightarrow> string \<Rightarrow> string" where
  "or_else v d = (case v of None \<Rightarrow> d | Some s \<Rightarrow> if s \<noteq> [] then s else d)"

text \<open>
  The attachment mapping is a plain object, so a property read also finds the members it
  inherits from \<open>Object.prototype\<close>; all of them are truthy.
\<close>

definition object_prototype_names :: "string list" where
  "object_prototype_names =
     [''constructor'', ''__defineGetter__'', ''__defineSetter__'', ''hasOwnProperty'',
      ''__lookupGetter__'', ''__lookupSetter__'', ''isPrototypeOf'', ''propertyIsEnumerable'',
      ''toString'', ''valueOf'', ''__proto__'', ''toLocaleString'']"

text \<open>
  What \<open>items[itemIndex].binary?.[name]\<close> evaluates to: an attachment of the item, a
  member of \<open>Object.prototype\<close>, or \<open>undefined\<close> (\<open>None\<close>).
\<close>

datatype binary_property = Attachment binary_data | Inherited

definition lookup_binary :: "item \<Rightarrow> string \<Rightarrow> binary_property option" where
  "lookup_binary it name =
     (case binary it of
        None \<Rightarrow> None
      | Some b \<Rightarrow>
          (case map_of b name of
             Some a \<Rightarrow> Some (Attachment a)
           | None \<Rightarrow> if name \<in> set object_prototype_names then Some Inherited else None))"

definition binaryKeys :: "item \<Rightarrow> string list" where
  "binaryKeys it = (case binary it of None \<Rightarrow> [] | Some b \<Rightarrow> map fst b)"

definition is_image :: "binary_data \<Rightarrow> bool" where
  "is_image a = (case mimeType a of None \<Rightarrow> False | Some m \<Rightarrow> startsWith m ''image/'')"

text \<open>
  \<open>items[itemIndex].binary![key].mimeType?.startsWith('image/')\<close>; a member of
  \<open>Object.prototype\<close> has no \<open>mimeType\<close>.
\<close>

definition is_image_key :: "item \<Rightarrow> string \<Rightarrow> bool" where
  "is_image_key it key =
     (case lookup_binary it key of
        None \<Rightarrow> False
      | Some Inherited \<Rightarrow> False
      | Some (Attachment a) \<Rightarrow> is_image a)"

definition no_binary_error :: "string \<Rightarrow> error" where
  \<open>no_binary_error binaryPropertyName =
     NodeOperationError
       (''No binary data found in property "'' @ binaryPropertyName @
        ''" and no image alternatives found'')\<close>

text \<open>
  Lines 148 to 166. \<open>if (imageKey)\<close> tests the key that \<open>find\<close> returned for truthiness:
  \<open>undefined\<close> and the empty string both take the \<open>else\<close> branch.
\<close>

definition actualPropertyName :: "item \<Rightarrow> string \<Rightarrow> error + string" where
  "actualPropertyName it binaryPropertyName =
     (if lookup_binary it binaryPropertyName = None then
        (case find (is_image_key it) (binaryKeys it) of
           None \<Rightarrow> Inl (no_binary_error binaryPropertyName)
         | Some imageKey \<Rightarrow>
             if imageKey \<noteq> [] then Inr imageKey
             else Inl (no_binary_error binaryPropertyName))
      else Inr binaryPropertyName)"

subsection \<open>Validation and the form (lines 183 to 267)\<close>

definition invalid_media_type :: "string option \<Rightarrow> error" where
  "invalid_media_type mediaType =
     NodeOperationError
       (''Invalid media type: '' @ (case mediaType of None \<Rightarrow> ''undefined'' | Some m \<Rightarrow> m) @
        ''. Only images are supported.'')"

text \<open>\<open>if (!mediaType || !mediaType.startsWith('image/')) throw ...\<close>\<close>

definition check_media_type :: "string option \<Rightarrow> error + string" where
  "check_media_type mediaType =
     (case mediaType of
        None \<Rightarrow> Inl (invalid_media_type mediaType)
      | Some m \<Rightarrow>
          if m = [] \<or> \<not> startsWith m ''image/'' then Inl (invalid_media_type mediaType)
          else Inr m)"

definition ownersList :: "string \<Rightarrow> string list" where
  "ownersList additionalOwners =
     filter (\<lambda>id. length id > 0) (map trim (split_str CHR '','' additionalOwners))"

text \<open>The body of the \<open>try\<close> block of lines 244 to 261: the fields it appends, or what it throws.\<close>

definition try_additional_owners :: "context \<Rightarrow> nat \<Rightarrow> error + form_field list" where
  "try_additional_owners this itemIndex =
     (case getNodeParameter this ''additionalOwners'' itemIndex of
        Inl e \<Rightarrow> Inl e
      | Inr additionalOwners \<Rightarrow>
          if additionalOwners \<noteq> [] then
            (if length (ownersList additionalOwners) > 100
             then Inl (NodeOperationError ''Maximum of 100 additional owners allowed'')
             else Inr [FormField ''additional_owners'' (join_str '','' (ownersList additionalOwners))])
          else Inr [])"

text \<open>
  The \<open>catch\<close> of lines 262 to 267 logs the error and goes on without additional owners,
  whatever was thrown.
\<close>

definition additional_owners_fields :: "context \<Rightarrow> nat \<Rightarrow> form_field list" where
  "additional_owners_fields this itemIndex =
     (case try_additional_owners this itemIndex of Inl _ \<Rightarrow> [] | Inr fs \<Rightarrow> fs)"

definition credential_string :: "(string \<rightharpoonup> string) \<Rightarrow> string \<Rightarrow> string" where
  "credential_string credentials field = (case credentials field of None \<Rightarrow> [] | Some v \<Rightarrow> v)"

definition upload_url :: string where
  "upload_url = ''https://upload.twitter.com/1.1/media/upload.json''"

text \<open>
  Lines 119 to 173: the parameters are read and the attachment to upload is chosen.
  \<open>mediaData\<close> is read (lines 122 to 130) and passed to the logger only. When the
  configured name is found as a member of \<open>Object.prototype\<close>, the fallback of lines 150
  to 166 is skipped and \<open>getBinaryDataBuffer\<close> (line 169) rejects, since that member is
  not an attachment.
\<close>

definition resolve_attachment :: "context \<Rightarrow> nat \<Rightarrow> error + binary_data" where
  "resolve_attachment this itemIndex =
     (case getNodeParameter this ''binaryPropertyName'' itemIndex of
        Inl e \<Rightarrow> Inl e
      | Inr binaryPropertyName \<Rightarrow>
          (let mediaData = try_parameter this ''mediaData'' itemIndex;
               it = getInputData this ! itemIndex
           in (case actualPropertyName it binaryPropertyName of
                 Inl e \<Rightarrow> Inl e
               | Inr name \<Rightarrow>
                   (case lookup_binary it name of
                      None \<Rightarrow> Inl (bufferError this itemIndex name)
                    | Some Inherited \<Rightarrow> Inl (bufferError this itemIndex name)
                    | Some (Attachment attachment) \<Rightarrow> Inr attachment))))"

text \<open>Lines 183 to 218: the first mime type check, then the authorization header.\<close>

definition oauthParams :: "binary_data \<Rightarrow> string \<Rightarrow> string option \<Rightarrow> (string \<times> string) list" where
  "oauthParams attachment mediaType mediaCategory =
     [(''command'', ''INIT''),
      (''totalBytes'', String_nat (length (buffer attachment))),
      (''mediaType'', mediaType)] @
     (if truthy mediaCategory then [(''media_category'', or_else mediaCategory [])] else [])"

definition authHeader ::
  "context \<Rightarrow> (string \<rightharpoonup> string) \<Rightarrow> nat \<Rightarrow> binary_data \<Rightarrow> string option \<Rightarrow> error + string" where
  "authHeader this credentials itemIndex attachment mediaCategory =
     (case check_media_type (mimeType attachment) of
        Inl e \<Rightarrow> Inl e
      | Inr mediaType \<Rightarrow>
          generateAuthHeader this
            \<lparr>consumerKey = credential_string credentials ''consumerKey'',
             consumerSecret = credential_string credentials ''consumerSecret'',
             accessToken = credential_string credentials ''accessToken'',
             accessSecret = credential_string credentials ''accessSecret''\<rparr>
            itemIndex
            \<lparr>auth_url = upload_url, auth_method = ''POST'',
             auth_params = oauthParams attachment mediaType mediaCategory\<rparr>)"

text \<open>
  Lines 220 to 267: the form, with the \<open>totalBytes\<close> check and the second mime type
  check on the way.
\<close>

definition build_form ::
  "context \<Rightarrow> nat \<Rightarrow> binary_data \<Rightarrow> string option \<Rightarrow> error + form_field list" where
  "build_form this itemIndex attachment mediaCategory =
     (let totalBytes = String_nat (length (buffer attachment)) in
      if isNaN_Number totalBytes then Inl (NodeOperationError ''totalBytes must be a number'')
      else
        (case check_media_type (mimeType attachment) of
           Inl e \<Rightarrow> Inl e
         | Inr mediaType \<Rightarrow>
             Inr ([FormField ''command'' ''INIT'',
                   FormField ''totalBytes'' totalBytes,
                   FormField ''mediaType'' mediaType] @
                  (if truthy mediaCategory
                   then [FormField ''media_category'' (or_else mediaCategory [])] else []) @
                  [FormFile ''media'' (buffer attachment)
                     (or_else (fileName attachment) ''image.jpg'')] @
                  additional_owners_fields this itemIndex)))"

text \<open>
  Lines 119 to 276 for one item: everything up to the request that is about to be sent.
  The source reads \<open>mediaCategory\<close> (lines 133 to 139) before it resolves the
  attachment; the read cannot fail, so the result is the same.
\<close>

definition build_request :: "context \<Rightarrow> (string \<rightharpoonup> string) \<Rightarrow> nat \<Rightarrow> error + http_request" where
  "build_request this credentials itemIndex =
     (case resolve_attachment this itemIndex of
        Inl e \<Rightarrow> Inl e
      | Inr attachment \<Rightarrow>
          (let mediaCategory = try_parameter this ''mediaCategory'' itemIndex in
           (case authHeader this credentials itemIndex attachment mediaCategory of
              Inl e \<Rightarrow> Inl e
            | Inr header \<Rightarrow>
                (case build_form this itemIndex attachment mediaCategory of
                   Inl e \<Rightarrow> Inl e
                 | Inr form \<Rightarrow>
                     Inr \<lparr>requestUrl = upload_url,
                          requestMethod = ''POST'',
                          authorization = header,
                          formData = form\<rparr>))))"

subsection \<open>Sending and classifying (lines 278 to 333)\<close>

text \<open>\<open>try { responseBody = JSON.parse(data) } catch { responseBody = data }\<close>\<close>

definition responseBody :: "context \<Rightarrow> http_response \<Rightarrow> json" where
  "responseBody this res =
     (case JSON_parse this (response_data res) of None \<Rightarrow> JStr (response_data res) | Some j \<Rightarrow> j)"

text \<open>
  The own enumerable properties that an object spread \<open>...v\<close> copies: the fields of an
  object, the elements of an array and the characters of a string under their indices,
  nothing for any other value.
\<close>

definition indexed :: "json list \<Rightarrow> (string \<times> json) list" where
  "indexed vs = zip (map String_nat [0..<length vs]) vs"

fun own_properties :: "json \<Rightarrow> (string \<times> json) list" where
  "own_properties (JObj kvs) = kvs"
| "own_properties (JArr vs) = indexed vs"
| "own_properties (JStr s) = indexed (map (\<lambda>c. JStr [c]) s)"
| "own_properties _ = []"

text \<open>
  \<open>{...obj, ...v}\<close>: each copied property replaces the value of a key that is there
  already and is added otherwise. Objects are association lists; the position of
  integer-like keys in JavaScript's enumeration order is not modelled.
\<close>

definition spread :: "(string \<times> json) list \<Rightarrow> json \<Rightarrow> (string \<times> json) list" where
  "spread obj v = fold (\<lambda>(k, x) acc. AList.update k x acc) (own_properties v) obj"

definition success_json :: "json \<Rightarrow> (string \<times> json) list" where
  "success_json body = spread [(''success'', JBool True)] body"

text \<open>
  \<open>throw new NodeApiError(this.getNode(), response.body, {httpCode: response.statusCode})\<close>
  (line 324): what the statement raises is the NodeApiError when the constructor returns,
  and the constructor's own exception when it throws.
\<close>

definition throw_NodeApiError :: "context \<Rightarrow> json \<Rightarrow> nat \<Rightarrow> error" where
  "throw_NodeApiError this body httpCode =
     (case newNodeApiError this body httpCode of
        Inl thrown \<Rightarrow> thrown
      | Inr message \<Rightarrow> NodeApiError message body httpCode)"

definition classify :: "context \<Rightarrow> http_response \<Rightarrow> error + (string \<times> json) list" where
  "classify this res =
     (if statusCode res \<ge> 400
      then Inl (throw_NodeApiError this (responseBody this res) (statusCode res))
      else Inr (success_json (responseBody this res)))"

text \<open>
  One pass through the body of the \<open>try\<close> block of the loop: the network calls made for
  the item (none or one) and the item's outcome.
\<close>

definition process_item ::
  "context \<Rightarrow> (string \<rightharpoonup> string) \<Rightarrow> nat \<Rightarrow> http_request list \<times> (error + (string \<times> json) list)" where
  "process_item this credentials itemIndex =
     (case build_request this credentials itemIndex of
        Inl e \<Rightarrow> ([], Inl e)
      | Inr req \<Rightarrow>
          ([req],
           (case request this itemIndex req of
              Inl e \<Rightarrow> Inl e
            | Inr res \<Rightarrow> classify this res)))"

subsection \<open>The item boundary and the batch (lines 116 to 368)\<close>

text \<open>\<open>error.message\<close>\<close>

definition error_message :: "error \<Rightarrow> string" where
  "error_message e =
     (case e of
        NodeOperationError m \<Rightarrow> m
      | NodeApiError m _ _ \<Rightarrow> m
      | ExternalError m _ \<Rightarrow> m)"

text \<open>
  \<open>error.response?.body\<close>: the n8n error classes have no \<open>response\<close> property; a
  NodeApiError keeps the body as \<open>errorResponse\<close> and the code as \<open>httpCode\<close>, which
  lines 354 to 360 do not read.
\<close>

definition error_details :: "error \<Rightarrow> json" where
  "error_details e =
     (case e of
        NodeOperationError _ \<Rightarrow> JUndefined
      | NodeApiError _ _ _ \<Rightarrow> JUndefined
      | ExternalError _ b \<Rightarrow> b)"

text \<open>
  The record of lines 354 to 360: \<open>{success: false, error: error.message, details:
  error.response?.body}\<close>.
\<close>

definition failure_json :: "error \<Rightarrow> (string \<times> json) list" where
  "failure_json e =
     [(''success'', JBool False),
      (''error'', JStr (error_message e)),
      (''details'', error_details e)]"

text \<open>
  The \<open>for\<close> loop: \<open>returnData\<close> and the trace of network calls are threaded through.
\<close>

function item_loop ::
  "context \<Rightarrow> (string \<rightharpoonup> string) \<Rightarrow> nat \<Rightarrow> (string \<times> json) list list \<Rightarrow> http_request list \<Rightarrow>
   http_request list \<times> (error + (string \<times> json) list list)" where
  "item_loop this credentials itemIndex returnData calls =
     (if itemIndex < length (getInputData this) then
        (case process_item this credentials itemIndex of
           (sent, Inr out) \<Rightarrow>
             item_loop this credentials (Suc itemIndex) (returnData @ [out]) (calls @ sent)
         | (sent, Inl e) \<Rightarrow>
             if continueOnFail this
             then item_loop this credentials (Suc itemIndex)
                    (returnData @ [failure_json e]) (calls @ sent)
             else (calls @ sent, Inl e))
      else (calls, Inr returnData))"
  by pat_completeness auto
termination
  by (relation "measure (\<lambda>(this, credentials, itemIndex, returnData, calls).
        length (getInputData this) - itemIndex)") auto

declare item_loop.simps [simp del]

text \<open>
  \<open>execute\<close>: the network calls made, and either the error that propagates to the caller
  or the value returned, \<open>[returnData]\<close>.
\<close>

definition execute ::
  "context \<Rightarrow> http_request list \<times> (error + (string \<times> json) list list list)" where
  "execute this =
     (case validate_credentials this of
        Inl e \<Rightarrow> ([], Inl e)
      | Inr credentials \<Rightarrow>
          (case item_loop this credentials 0 [] [] of
             (calls, Inl e) \<Rightarrow> (calls, Inl e)
           | (calls, Inr returnData) \<Rightarrow> (calls, Inr [returnData])))"

subsection \<open>Reading a form\<close>

definition field_name :: "form_field \<Rightarrow> string" where
  "field_name f = (case f of FormField n _ \<Rightarrow> n | FormFile n _ _ \<Rightarrow> n)"


subsection \<open>Example executions\<close>

text \<open>
  A batch of three items: a PNG under the configured name \<open>data\<close>, a PDF under that
  name, and a PNG under the name \<open>photo\<close> only. The remote end answers every request
  with status 200 and the body \<open>{"media_id":7}\<close>.
\<close>

definition example_credentials :: "string \<rightharpoonup> string" where
  "example_credentials =
     [''consumerKey'' \<mapsto> ''ck'', ''consumerSecret'' \<mapsto> ''cs'',
      ''accessToken'' \<mapsto> ''at'', ''accessSecret'' \<mapsto> ''as'']"

definition png :: binary_data where
  "png = \<lparr>mimeType = Some ''image/png'', fileName = Some ''a.png'', buffer = [1, 2, 3]\<rparr>"

definition pdf :: binary_data where
  "pdf = \<lparr>mimeType = Some ''application/pdf'', fileName = Some ''a.pdf'', buffer = [4, 5]\<rparr>"

definition example_items :: "item list" where
  "example_items =
     [\<lparr>binary = Some [(''data'', png)]\<rparr>,
      \<lparr>binary = Some [(''data'', pdf)]\<rparr>,
      \<lparr>binary = Some [(''photo'', png)]\<rparr>]"

definition not_configured :: error where
  "not_configured = ExternalError ''Could not get parameter'' JUndefined"

definition example_parameter :: "string \<Rightarrow> string \<Rightarrow> nat \<Rightarrow> error + string" where
  "example_parameter additionalOwners name itemIndex =
     (if name = ''binaryPropertyName'' then Inr ''data''
      else if name = ''mediaCategory'' then Inr ''tweet_image''
      else if name = ''additionalOwners'' then Inr additionalOwners
      else Inl not_configured)"

definition example_parse :: "string \<Rightarrow> json option" where
  \<open>example_parse s =
     (if s = ''{"media_id":7}'' then Some (JObj [(''media_id'', JNum 7)])
      else if s = ''{"success":false}'' then Some (JObj [(''success'', JBool False)])
      else if s = ''7'' then Some (JNum 7)
      else None)\<close>

text \<open>
  A sample of the NodeApiError constructor: the message n8n has for the code 403, and a
  TypeError for every other code, as the constructor throws for 413.
\<close>

definition example_api_error :: "json \<Rightarrow> nat \<Rightarrow> error + string" where
  "example_api_error body httpCode =
     (if httpCode = 403 then Inr ''Forbidden - perhaps check your credentials?''
      else Inl (ExternalError ''TypeError'' JUndefined))"

definition example_context :: "context" where
  \<open>example_context =
     \<lparr>getCredentials = Inr (Some example_credentials),
      getInputData = example_items,
      getNodeParameter = example_parameter [],
      continueOnFail = True,
      generateAuthHeader = (\<lambda>c i r. Inr ''OAuth example''),
      request = (\<lambda>i r. Inr \<lparr>statusCode = 200, response_data = ''{"media_id":7}''\<rparr>),
      JSON_parse = example_parse,
      newNodeApiError = example_api_error,
      bufferError = (\<lambda>i name. ExternalError ''TypeError'' JUndefined)\<rparr>\<close>

definition example_request :: "form_field list \<Rightarrow> http_request" where
  "example_request owners =
     \<lparr>requestUrl = upload_url, requestMethod = ''POST'', authorization = ''OAuth example'',
      formData =
        [FormField ''command'' ''INIT'', FormField ''totalBytes'' ''3'', FormField ''mediaType'' ''image/png'',
         FormField ''media_category'' ''tweet_image'', FormFile ''media'' [1, 2, 3] ''a.png''] @
        owners\<rparr>"

definition example_success :: "(string \<times> json) list" where
  "example_success = [(''success'', JBool True), (''media_id'', JNum 7)]"


text \<open>An item whose only attachment is a PNG stored under the empty name.\<close>

definition unnamed_image_item :: item where
  "unnamed_image_item = \<lparr>binary = Some [([], png)]\<rparr>"

text \<open>The context in which one more node parameter is configured.\<close>

definition with_parameter :: "string \<Rightarrow> string \<Rightarrow> context \<Rightarrow> context" where
  "with_parameter name v this =
     this\<lparr>getNodeParameter :=
            (\<lambda>n i. if n = name then Inr v else getNodeParameter this n i)\<rparr>"

text \<open>The example batch with the \<open>additionalOwners\<close> parameter set to a given string.\<close>

definition owners_context :: "string \<Rightarrow> context" where
  "owners_context additionalOwners =
     example_context\<lparr>getNodeParameter := example_parameter additionalOwners\<rparr>"

text \<open>The example batch in which \<open>additionalOwners\<close> is not configured.\<close>

definition no_owners_context :: "context" where
  "no_owners_context =
     example_context\<lparr>getNodeParameter :=
       (\<lambda>name itemIndex. if name = ''additionalOwners'' then Inl not_configured
                          else example_parameter [] name itemIndex)\<rparr>"

text \<open>A list of 101 user ids, comma-separated.\<close>

definition owners_101 :: string where
  "owners_101 =
     ''5013,5026,5039,5052,5065,5078,5091,5104,5117,5130,5143,5156,5169,5182,5195,5208,5221,5234,5247,5260,5273,5286,5299,5312,5325,5338,5351,5364,5377,5390,5403,5416,5429,5442,5455,5468,5481,5494,5507,5520,5533,5546,5559,5572,5585,5598,5611,5624,5637,5650,5663,5676,5689,5702,5715,5728,5741,5754,5767,5780,5793,5806,5819,5832,5845,5858,5871,5884,5897,5910,5923,5936,5949,5962,5975,5988,6001,6014,6027,6040,6053,6066,6079,6092,6105,6118,6131,6144,6157,6170,6183,6196,6209,6222,6235,6248,6261,6274,6287,6300,6313''"



text \<open>The \<open>additional_owners\<close> fields of a request's form.\<close>

definition additional_owners_of :: "http_request \<Rightarrow> form_field list" where
  "additional_owners_of req =
     filter (\<lambda>f. field_name f = ''additional_owners'') (formData req)"

subsection \<open>The signature engine\<close>

text \<open>
  Modelled from the spec: the signature engine of section 4.1, that is
  \<open>OAuth1Helper.generateAuthHeader\<close> of \<open>./TwitterUtils\<close>, which is not among the
  source files. The nonce and the timestamp of step 1 are explicit inputs. HMAC-SHA1
  followed by base64 (step 7) is the parameter \<open>hmac\<close>, from the key and the base string
  to the signature.
\<close>

text \<open>Modelled from the spec: the one error of the signature engine.\<close>

datatype sign_error = ConfigurationError

text \<open>
  Modelled from the spec: step 3, the unreserved characters of RFC 3986; a string is its
  sequence of bytes.
\<close>

definition unreserved :: "char \<Rightarrow> bool" where
  "unreserved c =
     (c \<in> set ''ABCDEFGHIJKLMNOPQRSTUVWXYZabcdefghijklmnopqrstuvwxyz0123456789-._~'')"

text \<open>Modelled from the spec: step 3, the hexadecimal digits of a percent-encoded byte.\<close>

definition hex_digit :: "nat \<Rightarrow> char" where
  "hex_digit d = ''0123456789ABCDEF'' ! d"

text \<open>
  Modelled from the spec: step 3, unreserved characters are left as they are, every other
  byte becomes \<open>%\<close> and two hexadecimal digits.
\<close>

definition percent_encode :: "string \<Rightarrow> string" where
  "percent_encode s =
     concat (map (\<lambda>c. if unreserved c then [c]
                       else [CHR ''%'', hex_digit (of_char c div 16), hex_digit (of_char c mod 16)])
               s)"

text \<open>Modelled from the spec: step 5, the method in upper case.\<close>

definition uppercase :: "string \<Rightarrow> string" where
  "uppercase s =
     map (\<lambda>c. if c \<in> set ''abcdefghijklmnopqrstuvwxyz'' then char_of (of_char c - (32::nat)) else c)
       s"

text \<open>Modelled from the spec: step 2, the six OAuth parameters.\<close>

definition oauth_parameters :: "oauth_credentials \<Rightarrow> string \<Rightarrow> string \<Rightarrow> (string \<times> string) list" where
  "oauth_parameters credentials nonce timestamp =
     [(''oauth_consumer_key'', consumerKey credentials),
      (''oauth_nonce'', nonce),
      (''oauth_signature_method'', ''HMAC-SHA1''),
      (''oauth_timestamp'', timestamp),
      (''oauth_token'', accessToken credentials),
      (''oauth_version'', ''1.0'')]"

text \<open>Modelled from the spec: step 3, every key and every value is encoded.\<close>

definition encode_pair :: "string \<times> string \<Rightarrow> string \<times> string" where
  "encode_pair p = (percent_encode (fst p), percent_encode (snd p))"

text \<open>
  Modelled from the spec: step 4, the encoded pairs sorted by key and then by value in
  ascending byte order, joined as \<open>key=value\<close> with \<open>&\<close>.
\<close>

definition normalized_parameters :: "(string \<times> string) list \<Rightarrow> string" where
  "normalized_parameters ps =
     join_str ''&'' (map (\<lambda>p. fst p @ ''='' @ snd p) (sort (map encode_pair ps)))"

text \<open>
  Modelled from the spec: step 5, the base string from the method, the encoded url and the
  encoded parameter string.
\<close>

definition base_string :: "string \<Rightarrow> string \<Rightarrow> (string \<times> string) list \<Rightarrow> string" where
  "base_string httpMethod url ps =
     uppercase httpMethod @ ''&'' @ percent_encode url @ ''&'' @
     percent_encode (normalized_parameters ps)"

text \<open>Modelled from the spec: step 6, the signing key from the two encoded secrets.\<close>

definition signing_key :: "oauth_credentials \<Rightarrow> string" where
  "signing_key credentials =
     percent_encode (consumerSecret credentials) @ ''&'' @
     percent_encode (accessSecret credentials)"

text \<open>
  Modelled from the spec: step 8, the header from the \<open>oauth_*\<close> fields only, in the
  order the spec lists them.
\<close>

definition authorization_header :: "(string \<times> string) list \<Rightarrow> string" where
  \<open>authorization_header fs =
     ''OAuth '' @ join_str '', '' (map (\<lambda>p. fst p @ ''="'' @ percent_encode (snd p) @ ''"'') fs)\<close>

text \<open>
  Modelled from the spec: \<open>sign(credentials, httpMethod, url, requestParams)\<close>, failing
  with \<open>ConfigurationError\<close> if a credential field is empty.
\<close>

definition sign ::
  "(string \<Rightarrow> string \<Rightarrow> string) \<Rightarrow> oauth_credentials \<Rightarrow> string \<Rightarrow> string \<Rightarrow>
   string \<Rightarrow> string \<Rightarrow> (string \<times> string) list \<Rightarrow> sign_error + string" where
  "sign hmac credentials nonce timestamp httpMethod url requestParams =
     (if consumerKey credentials = [] \<or> consumerSecret credentials = [] \<or>
         accessToken credentials = [] \<or> accessSecret credentials = []
      then Inl ConfigurationError
      else
        (let signature =
               hmac (signing_key credentials)
                 (base_string httpMethod url
                    (oauth_parameters credentials nonce timestamp @ requestParams))
         in Inr (authorization_header
                   [(''oauth_consumer_key'', consumerKey credentials),
                    (''oauth_nonce'', nonce),
                    (''oauth_signature'', signature),
                    (''oauth_signature_method'', ''HMAC-SHA1''),
                    (''oauth_timestamp'', timestamp),
                    (''oauth_token'', accessToken credentials),
                    (''oauth_version'', ''1.0'')])))"

text \<open>Sample credentials for the signature engine.\<close>

definition example_oauth :: oauth_credentials where
  "example_oauth =
     \<lparr>consumerKey = ''ck'', consumerSecret = ''cs'', accessToken = ''at'', accessSecret = ''as''\<rparr>"

text \<open>A stand-in for HMAC-SHA1 in the samples; any function serves.\<close>

definition example_hmac :: "string \<Rightarrow> string \<Rightarrow> string" where
  "example_hmac key text = String_nat (length key + length text)"

section \<open>Properties\<close>

subsection \<open>Decimal strings are numeric\<close>

lemma digit_char_is_digit: "d < 10 \<Longrightarrow> is_digit (digit_char d)"
  unfolding is_digit_def digit_char_def by (rule nth_mem) simp

lemma String_nat_all_digits: "all_digits (String_nat n)"
proof (induction n rule: String_nat.induct)
  case (1 n)
  show ?case
  proof (cases "n < 10")
    case True
    then show ?thesis
      by (subst String_nat.simps) (simp add: all_digits_def digit_char_is_digit)
  next
    case False
    with 1 have "all_digits (String_nat (n div 10))" by simp
    moreover have "is_digit (digit_char (n mod 10))" by (simp add: digit_char_is_digit)
    ultimately show ?thesis using False
      by (subst String_nat.simps) (simp add: all_digits_def)
  qed
qed

lemma digit_not_whitespace: "is_digit c \<Longrightarrow> \<not> is_whitespace c"
  by (auto simp: is_digit_def is_whitespace_def)

lemma digit_not_sign: "is_digit c \<Longrightarrow> c \<noteq> CHR ''+'' \<and> c \<noteq> CHR ''-''"
  by (auto simp: is_digit_def)

lemma trim_all_digits: "all_digits s \<Longrightarrow> trim s = s"
proof -
  assume a: "all_digits s"
  then obtain c cs where s: "s = c # cs" by (cases s) (auto simp: all_digits_def)
  from a s have "\<not> is_whitespace c" by (simp add: all_digits_def digit_not_whitespace)
  then have d1: "dropWhile is_whitespace s = s" using s by simp
  from a have "rev s \<noteq> []" and "is_digit (hd (rev s))"
    by (auto simp: all_digits_def list_all_iff hd_rev)
  then obtain l ls where r: "rev s = l # ls" and "is_digit l" by (cases "rev s") auto
  then have "dropWhile is_whitespace (rev s) = rev s" by (simp add: digit_not_whitespace)
  with d1 show ?thesis by (simp add: trim_def)
qed

lemma is_decimal_literal_all_digits: "all_digits s \<Longrightarrow> is_decimal_literal s"
proof -
  assume a: "all_digits s"
  then obtain c cs where s: "s = c # cs" by (cases s) (auto simp: all_digits_def)
  from a have tw: "takeWhile is_digit s = s" and dw: "dropWhile is_digit s = []"
    by (auto simp: all_digits_def list_all_iff)
  from a s have "is_digit c" by (simp add: all_digits_def)
  then have ns: "c \<noteq> CHR ''+'' \<and> c \<noteq> CHR ''-''" by (rule digit_not_sign)
  have "is_unsigned_decimal s"
    unfolding is_unsigned_decimal_def using tw dw s by (simp add: Let_def)
  then show ?thesis using s ns by (simp add: is_decimal_literal_def)
qed

lemma isNaN_Number_String_nat [simp]: "isNaN_Number (String_nat n) = False"
  by (simp add: isNaN_Number_def Let_def String_nat_all_digits trim_all_digits
      is_decimal_literal_all_digits)

subsection \<open>The example batch\<close>

lemmas example_defs = example_context_def example_items_def example_parameter_def
  example_parse_def png_def pdf_def example_credentials_def not_configured_def

lemma String_nat_small: "n < 10 \<Longrightarrow> String_nat n = [digit_char n]"
  by (subst String_nat.simps) simp

lemma String_nat_3: "String_nat (Suc (Suc (Suc 0))) = ''3''"
  by (simp add: String_nat_small digit_char_def)


lemma build_form_numeric:
  "build_form this itemIndex attachment mediaCategory =
     (case check_media_type (mimeType attachment) of
        Inl e \<Rightarrow> Inl e
      | Inr mediaType \<Rightarrow>
          Inr ([FormField ''command'' ''INIT'',
                FormField ''totalBytes'' (String_nat (length (buffer attachment))),
                FormField ''mediaType'' mediaType] @
               (if truthy mediaCategory
                then [FormField ''media_category'' (or_else mediaCategory [])] else []) @
               [FormFile ''media'' (buffer attachment)
                  (or_else (fileName attachment) ''image.jpg'')] @
               additional_owners_fields this itemIndex))"
  by (simp add: build_form_def Let_def)

lemmas stage_defs = build_request_def resolve_attachment_def authHeader_def build_form_numeric
      try_parameter_def actualPropertyName_def lookup_binary_def object_prototype_names_def
      binaryKeys_def is_image_key_def is_image_def
      check_media_type_def startsWith_def oauthParams_def truthy_def or_else_def
      additional_owners_fields_def try_additional_owners_def Let_def






subsection \<open>The totalBytes check\<close>

text \<open>
  C10. An item that reaches request building never takes the branch that throws
  \<open>totalBytes must be a number\<close>: \<open>totalBytes\<close> is the decimal string of the byte
  length of the resolved payload, a non-empty string of digits, so \<open>isNaN(Number(totalBytes))\<close>
  is false, and building the form never fails with that error.
\<close>

theorem totalBytes_always_numeric:
  "all_digits (String_nat (length (buffer attachment))) \<and>
   \<not> isNaN_Number (String_nat (length (buffer attachment))) \<and>
   build_form this itemIndex attachment mediaCategory \<noteq>
     Inl (NodeOperationError ''totalBytes must be a number'')"
proof -
  have "build_form this itemIndex attachment mediaCategory \<noteq>
     Inl (NodeOperationError ''totalBytes must be a number'')"
    by (cases "mimeType attachment")
      (simp_all add: build_form_numeric check_media_type_def invalid_media_type_def)
  then show ?thesis
    by (simp add: String_nat_all_digits)
qed

subsection \<open>The item loop\<close>



subsection \<open>The batch and its failure policy\<close>







subsection \<open>Credential validation\<close>

lemma check_fields_missing:
  "(f, l) \<in> set fs \<Longrightarrow> missing_field c f \<Longrightarrow>
   \<exists>label. check_fields c fs =
     Inl (NodeOperationError (''Missing required Twitter OAuth credential: '' @ label))"
  by (induction c fs rule: check_fields.induct) auto

lemma check_fields_present:
  "\<forall>(f, l) \<in> set fs. \<not> missing_field c f \<Longrightarrow> check_fields c fs = Inr ()"
  by (induction c fs rule: check_fields.induct) auto

text \<open>
  C6. The four credential fields are checked before the item loop starts. If one of
  \<open>consumerKey\<close>, \<open>consumerSecret\<close>, \<open>accessToken\<close>, \<open>accessSecret\<close> is absent or
  empty, the execution ends with the configuration error \<open>Missing required Twitter OAuth
  credential\<close>, without a single network call, whatever the input items and whatever the
  continue-on-failure policy; if all four are present and non-empty, validation passes and
  hands the credentials to the loop.
\<close>

theorem credentials_validated_before_items:
  assumes "getCredentials this = Inr (Some credentials)"
  shows "((\<exists>field \<in> set [''consumerKey'', ''consumerSecret'', ''accessToken'', ''accessSecret''].
             missing_field credentials field) \<longrightarrow>
          (\<exists>label. \<forall>policy items.
             execute (this\<lparr>getInputData := items, continueOnFail := policy\<rparr>) =
               ([], Inl (NodeOperationError
                          (''Missing required Twitter OAuth credential: '' @ label))))) \<and>
         ((\<forall>field \<in> set [''consumerKey'', ''consumerSecret'', ''accessToken'', ''accessSecret''].
             \<not> missing_field credentials field) \<longrightarrow>
          validate_credentials this = Inr credentials)"
proof (intro conjI impI)
  assume "\<exists>field \<in> set [''consumerKey'', ''consumerSecret'', ''accessToken'', ''accessSecret''].
             missing_field credentials field"
  then obtain field where m: "missing_field credentials field"
    and "field \<in> fst ` set requiredFields"
    by (auto simp: requiredFields_def)
  then obtain l where "(field, l) \<in> set requiredFields" by auto
  from check_fields_missing [OF this m] obtain label where
    l: "check_fields credentials requiredFields =
          Inl (NodeOperationError (''Missing required Twitter OAuth credential: '' @ label))"
    by blast
  have "\<forall>policy items.
          execute (this\<lparr>getInputData := items, continueOnFail := policy\<rparr>) =
            ([], Inl (NodeOperationError
                       (''Missing required Twitter OAuth credential: '' @ label)))"
    by (simp add: execute_def validate_credentials_def assms l)
  then show "\<exists>label. \<forall>policy items.
          execute (this\<lparr>getInputData := items, continueOnFail := policy\<rparr>) =
            ([], Inl (NodeOperationError
                       (''Missing required Twitter OAuth credential: '' @ label)))"
    by blast
next
  assume "\<forall>field \<in> set [''consumerKey'', ''consumerSecret'', ''accessToken'', ''accessSecret''].
             \<not> missing_field credentials field"
  then have "\<forall>(f, l) \<in> set requiredFields. \<not> missing_field credentials f"
    by (simp add: requiredFields_def)
  then have "check_fields credentials requiredFields = Inr ()"
    by (rule check_fields_present)
  then show "validate_credentials this = Inr credentials"
    by (simp add: validate_credentials_def assms)
qed

theorem credentials_validated_before_items_witness:
  "getCredentials (example_context\<lparr>getCredentials :=
       Inr (Some (example_credentials(''accessSecret'' \<mapsto> [])))\<rparr>) =
     Inr (Some (example_credentials(''accessSecret'' \<mapsto> []))) \<and>
   missing_field (example_credentials(''accessSecret'' \<mapsto> [])) ''accessSecret'' \<and>
   execute (example_context\<lparr>getCredentials :=
       Inr (Some (example_credentials(''accessSecret'' \<mapsto> [])))\<rparr>) =
     ([], Inl (NodeOperationError
                ''Missing required Twitter OAuth credential: Access Token Secret'')) \<and>
   getCredentials example_context = Inr (Some example_credentials) \<and>
   \<not> missing_field example_credentials ''consumerKey'' \<and>
   \<not> missing_field example_credentials ''consumerSecret'' \<and>
   \<not> missing_field example_credentials ''accessToken'' \<and>
   \<not> missing_field example_credentials ''accessSecret'' \<and>
   validate_credentials example_context = Inr example_credentials"
proof -
  let ?c = "example_credentials(''accessSecret'' \<mapsto> [])"
  let ?ctx = "example_context\<lparr>getCredentials := Inr (Some ?c)\<rparr>"
  have g: "getCredentials ?ctx = Inr (Some ?c)" by simp
  have m: "missing_field ?c ''accessSecret''" by (simp add: missing_field_def)
  from credentials_validated_before_items [OF g] m
  obtain label where "\<forall>policy items.
      execute (?ctx\<lparr>getInputData := items, continueOnFail := policy\<rparr>) =
        ([], Inl (NodeOperationError (''Missing required Twitter OAuth credential: '' @ label)))"
    by auto
  then have "execute (?ctx\<lparr>getInputData := getInputData ?ctx,
                           continueOnFail := continueOnFail ?ctx\<rparr>) =
        ([], Inl (NodeOperationError (''Missing required Twitter OAuth credential: '' @ label)))"
    by blast
  then have e: "execute ?ctx =
        ([], Inl (NodeOperationError (''Missing required Twitter OAuth credential: '' @ label)))"
    by simp
  have "execute ?ctx = ([], Inl (NodeOperationError
                ''Missing required Twitter OAuth credential: Access Token Secret''))"
    by (simp add: execute_def validate_credentials_def requiredFields_def missing_field_def
        example_credentials_def)
  with e have e': "execute ?ctx = ([], Inl (NodeOperationError
                ''Missing required Twitter OAuth credential: Access Token Secret''))"
    by simp
  have g2: "getCredentials example_context = Inr (Some example_credentials)"
    by (simp add: example_context_def)
  have p: "\<forall>field \<in> set [''consumerKey'', ''consumerSecret'', ''accessToken'', ''accessSecret''].
      \<not> missing_field example_credentials field"
    by (simp add: missing_field_def example_credentials_def)
  from credentials_validated_before_items [OF g2] p
  have "validate_credentials example_context = Inr example_credentials" by blast
  with g m e' g2 p show ?thesis by simp
qed

subsection \<open>Mime type validation\<close>

lemma check_media_type_rejects:
  "\<not> (\<exists>m. mimeType a = Some m \<and> startsWith m ''image/'') \<Longrightarrow>
   check_media_type (mimeType a) = Inl (invalid_media_type (mimeType a))"
  by (cases "mimeType a") (auto simp: check_media_type_def)

lemma check_media_type_accepts:
  "check_media_type mt = Inr m \<Longrightarrow> mt = Some m \<and> startsWith m ''image/''"
  by (cases mt) (auto simp: check_media_type_def split: if_splits)

text \<open>
  C8. An item whose resolved attachment has no mime type, or one that does not start with
  \<open>image/\<close>, is rejected by both mime type checks, the one before the OAuth parameters
  are built (in \<open>authHeader\<close>) and the one after (in \<open>build_form\<close>), with the error
  \<open>Invalid media type\<close>; the item fails with that error and no network call is made for
  it.
\<close>

theorem media_type_checked_twice:
  assumes "resolve_attachment this itemIndex = Inr attachment"
    and "\<not> (\<exists>m. mimeType attachment = Some m \<and> startsWith m ''image/'')"
  shows "authHeader this credentials itemIndex attachment mediaCategory =
           Inl (invalid_media_type (mimeType attachment)) \<and>
         build_form this itemIndex attachment mediaCategory =
           Inl (invalid_media_type (mimeType attachment)) \<and>
         process_item this credentials itemIndex =
           ([], Inl (invalid_media_type (mimeType attachment)))"
proof -
  note r = check_media_type_rejects [OF assms(2)]
  have a: "\<And>mc. authHeader this credentials itemIndex attachment mc =
           Inl (invalid_media_type (mimeType attachment))"
    by (simp add: authHeader_def r)
  have b: "build_form this itemIndex attachment mediaCategory =
           Inl (invalid_media_type (mimeType attachment))"
    by (simp add: build_form_numeric r)
  have "build_request this credentials itemIndex = Inl (invalid_media_type (mimeType attachment))"
    by (simp add: build_request_def assms(1) a)
  then have "process_item this credentials itemIndex =
           ([], Inl (invalid_media_type (mimeType attachment)))"
    by (simp add: process_item_def)
  with a b show ?thesis by simp
qed

lemma ex_resolve1: "resolve_attachment example_context (Suc 0) = Inr pdf"
  by (simp add: stage_defs example_defs)

theorem media_type_checked_twice_witness:
  "resolve_attachment example_context (Suc 0) = Inr pdf \<and>
   \<not> (\<exists>m. mimeType pdf = Some m \<and> startsWith m ''image/'') \<and>
   authHeader example_context example_credentials (Suc 0) pdf (Some ''tweet_image'') =
     Inl (NodeOperationError ''Invalid media type: application/pdf. Only images are supported.'') \<and>
   build_form example_context (Suc 0) pdf (Some ''tweet_image'') =
     Inl (NodeOperationError ''Invalid media type: application/pdf. Only images are supported.'') \<and>
   process_item example_context example_credentials (Suc 0) =
     ([], Inl (NodeOperationError ''Invalid media type: application/pdf. Only images are supported.''))"
proof -
  have n: "\<not> (\<exists>m. mimeType pdf = Some m \<and> startsWith m ''image/'')"
    by (simp add: pdf_def startsWith_def)
  have i: "invalid_media_type (mimeType pdf) =
     NodeOperationError ''Invalid media type: application/pdf. Only images are supported.''"
    by (simp add: invalid_media_type_def pdf_def)
  from media_type_checked_twice [OF ex_resolve1 n, of example_credentials "Some ''tweet_image''"]
    ex_resolve1 n show ?thesis
    by (simp add: i)
qed

subsection \<open>Fallback resolution\<close>

text \<open>
  C5, at an input where the code departs from it. The item has no attachment named
  \<open>data\<close> and one PNG attachment whose name is the empty string. \<open>find\<close> returns
  that attachment's key, but \<open>if (imageKey)\<close> takes the empty key for "not found": the
  item fails with \<open>No binary data found ... and no image alternatives found\<close> although an
  image attachment exists.
\<close>

theorem unnamed_image_not_found:
  "lookup_binary unnamed_image_item ''data'' = None \<and>
   find (is_image_key unnamed_image_item) (binaryKeys unnamed_image_item) = Some [] \<and>
   actualPropertyName unnamed_image_item ''data'' = Inl (no_binary_error ''data'') \<and>
   process_item (example_context\<lparr>getInputData := [unnamed_image_item]\<rparr>) example_credentials 0 =
     ([], Inl (no_binary_error ''data''))"
  by (simp add: process_item_def stage_defs example_defs unnamed_image_item_def)

text \<open>
  Where the read of the configured name finds nothing, neither an attachment nor a member
  inherited from \<open>Object.prototype\<close>, the fallback is as described: the first key with
  an image type is used when its name is not empty, and the item fails when there is no
  such key.
\<close>

lemma fallback_resolution:
  assumes "lookup_binary it binaryPropertyName = None"
  shows "(case find (is_image_key it) (binaryKeys it) of
            None \<Rightarrow> actualPropertyName it binaryPropertyName = Inl (no_binary_error binaryPropertyName)
          | Some key \<Rightarrow>
              key \<noteq> [] \<longrightarrow> actualPropertyName it binaryPropertyName = Inr key)"
  using assms by (simp add: actualPropertyName_def split: option.splits)

text \<open>
  A configured name that \<open>Object.prototype\<close> knows, such as \<open>toString\<close>, is found by
  the read of line 150 although the item has no attachment of that name: the fallback is
  skipped, and the item fails when the buffer is fetched, although it has an image
  attachment.
\<close>

lemma inherited_name_skips_fallback:
  "lookup_binary \<lparr>binary = Some [(''photo'', png)]\<rparr> ''toString'' = Some Inherited \<and>
   actualPropertyName \<lparr>binary = Some [(''photo'', png)]\<rparr> ''toString'' = Inr ''toString'' \<and>
   resolve_attachment
     (with_parameter ''binaryPropertyName'' ''toString''
        (example_context\<lparr>getInputData := [\<lparr>binary = Some [(''photo'', png)]\<rparr>]\<rparr>)) 0 =
     Inl (ExternalError ''TypeError'' JUndefined)"
  by (simp add: resolve_attachment_def actualPropertyName_def lookup_binary_def
      object_prototype_names_def with_parameter_def example_context_def try_parameter_def)

subsection \<open>Literal media data\<close>

text \<open>
  C4, at an input where the code departs from it. The \<open>mediaData\<close> parameter is
  configured with the literal \<open>literal\<close>. The request of the first example item still
  carries the bytes of the attachment \<open>data\<close>, and an item without attachments fails
  with \<open>No binary data found\<close>: the literal is read and never used as the payload.
\<close>

theorem mediaData_is_ignored:
  "try_parameter (with_parameter ''mediaData'' ''literal'' example_context) ''mediaData'' 0 =
     Some ''literal'' \<and>
   build_request (with_parameter ''mediaData'' ''literal'' example_context) example_credentials 0 =
     Inr (example_request []) \<and>
   build_request
     (with_parameter ''mediaData'' ''literal'' (example_context\<lparr>getInputData := [\<lparr>binary = None\<rparr>]\<rparr>))
     example_credentials 0 =
     Inl (no_binary_error ''data'')"
  by (simp add: stage_defs example_defs with_parameter_def example_request_def String_nat_3)

text \<open>In general the \<open>mediaData\<close> parameter has no influence on the request.\<close>

lemma build_request_mediaData:
  "build_request (with_parameter ''mediaData'' v this) c i = build_request this c i"
proof -
  let ?ctx = "with_parameter ''mediaData'' v this"
  have g: "\<And>n. n \<noteq> ''mediaData'' \<Longrightarrow> getNodeParameter ?ctx n i = getNodeParameter this n i"
    by (simp add: with_parameter_def)
  have t: "try_parameter ?ctx ''mediaCategory'' i = try_parameter this ''mediaCategory'' i"
    by (simp add: try_parameter_def g)
  have r: "resolve_attachment ?ctx i = resolve_attachment this i"
    by (simp add: resolve_attachment_def g Let_def with_parameter_def
        cong: sum.case_cong option.case_cong binary_property.case_cong)
  have a: "\<And>att mc. authHeader ?ctx c i att mc = authHeader this c i att mc"
    by (simp add: authHeader_def with_parameter_def cong: sum.case_cong)
  have o: "additional_owners_fields ?ctx i = additional_owners_fields this i"
    by (simp add: additional_owners_fields_def try_additional_owners_def g)
  have f: "\<And>att mc. build_form ?ctx i att mc = build_form this i att mc"
    by (simp add: build_form_def o cong: sum.case_cong)
  show ?thesis by (simp add: build_request_def t r a f cong: sum.case_cong)
qed

subsection \<open>Additional owners\<close>

lemma ex_owners_101: "length (ownersList owners_101) = 101"
  by (simp add: owners_101_def ownersList_def trim_def is_whitespace_def)

lemma classify_example:
  "classify example_context \<lparr>statusCode = 200, response_data = ''{\"media_id\":7}''\<rparr> =
     Inr example_success"
  by (simp add: classify_def responseBody_def success_json_def spread_def example_success_def
      example_context_def example_parse_def)

lemma owners_context_fields:
  "getInputData (owners_context a) = example_items"
  "getNodeParameter (owners_context a) = example_parameter a"
  "generateAuthHeader (owners_context a) = (\<lambda>c i r. Inr ''OAuth example'')"
  "request (owners_context a) =
     (\<lambda>i r. Inr \<lparr>statusCode = 200, response_data = ''{\"media_id\":7}''\<rparr>)"
  by (simp_all add: owners_context_def example_context_def)

lemma classify_owners_context: "classify (owners_context a) res = classify example_context res"
  by (simp add: classify_def responseBody_def throw_NodeApiError_def owners_context_def)

lemma field_name_simps [simp]:
  "field_name (FormField n v) = n"
  "field_name (FormFile n b f) = n"
  by (simp_all add: field_name_def)

text \<open>
  C2, at an input where the code departs from it. The \<open>additionalOwners\<close> parameter
  lists 101 user ids. The \<open>try\<close> block throws \<open>Maximum of 100 additional owners
  allowed\<close>, but the \<open>catch\<close> around it swallows the error: the request is sent without
  an \<open>additional_owners\<close> field and the item succeeds instead of failing.
\<close>

theorem too_many_owners_not_rejected:
  "length (ownersList owners_101) = 101 \<and>
   try_additional_owners (owners_context owners_101) 0 =
     Inl (NodeOperationError ''Maximum of 100 additional owners allowed'') \<and>
   process_item (owners_context owners_101) example_credentials 0 =
     ([example_request []], Inr example_success)"
proof -
  have g: "getNodeParameter (owners_context owners_101) ''additionalOwners'' 0 = Inr owners_101"
    by (simp add: owners_context_def example_parameter_def)
  have n: "owners_101 \<noteq> []" by (simp add: owners_101_def)
  have t: "try_additional_owners (owners_context owners_101) 0 =
     Inl (NodeOperationError ''Maximum of 100 additional owners allowed'')"
    by (simp add: try_additional_owners_def g n ex_owners_101)
  then have a: "additional_owners_fields (owners_context owners_101) 0 = []"
    by (simp add: additional_owners_fields_def)
  have b: "build_request (owners_context owners_101) example_credentials 0 =
     Inr (example_request [])"
    by (simp add: build_request_def resolve_attachment_def authHeader_def build_form_numeric a
        try_parameter_def actualPropertyName_def lookup_binary_def object_prototype_names_def
        check_media_type_def
        startsWith_def oauthParams_def truthy_def or_else_def Let_def
        owners_context_fields example_parameter_def example_items_def png_def
        example_credentials_def example_request_def String_nat_3)
  have "process_item (owners_context owners_101) example_credentials 0 =
     ([example_request []], Inr example_success)"
    by (simp add: process_item_def b owners_context_fields classify_owners_context
        classify_example)
  with ex_owners_101 t show ?thesis by simp
qed

text \<open>
  C3 fails as stated: for the parameter \<open>,\<close> the trimmed, filtered owner list is empty,
  yet the form carries an \<open>additional_owners\<close> field, with the empty string as its
  value.
\<close>

theorem blank_owners_counterexample:
  "ownersList '','' = [] \<and>
   build_request (owners_context '','') example_credentials 0 =
     Inr (example_request [FormField ''additional_owners'' []]) \<and>
   additional_owners_of (example_request [FormField ''additional_owners'' []]) =
     [FormField ''additional_owners'' []]"
  by (simp add: stage_defs owners_context_def example_defs example_request_def String_nat_3
      ownersList_def trim_def additional_owners_of_def)

lemma additional_owners_fields_names:
  "filter (\<lambda>f. field_name f = ''additional_owners'') (additional_owners_fields this i) =
   additional_owners_fields this i"
  by (simp add: additional_owners_fields_def try_additional_owners_def split: sum.splits)

lemma build_request_owners:
  assumes "build_request this credentials itemIndex = Inr req"
  shows "additional_owners_of req = additional_owners_fields this itemIndex"
proof -
  from assms obtain attachment mediaCategory form where
    f: "build_form this itemIndex attachment mediaCategory = Inr form" and r: "formData req = form"
    by (auto simp: build_request_def Let_def split: sum.splits)
  from f obtain mediaType where
    "form = [FormField ''command'' ''INIT'',
             FormField ''totalBytes'' (String_nat (length (buffer attachment))),
             FormField ''mediaType'' mediaType] @
            (if truthy mediaCategory
             then [FormField ''media_category'' (or_else mediaCategory [])] else []) @
            [FormFile ''media'' (buffer attachment)
               (or_else (fileName attachment) ''image.jpg'')] @
            additional_owners_fields this itemIndex"
    by (auto simp: build_form_numeric split: sum.splits)
  then show ?thesis
    by (simp add: additional_owners_of_def r additional_owners_fields_names)
qed

text \<open>
  C3, amended. For every item whose request is built: the form has no
  \<open>additional_owners\<close> field when the \<open>additionalOwners\<close> parameter is not configured;
  when it is configured and its trimmed, filtered owner list has at most 100 entries, the
  form has the field if and only if the parameter is a non-empty string, and the field's
  value is then the comma-join of the trimmed, filtered list (the empty string when every
  entry is blank).
\<close>

theorem additional_owners_field:
  assumes "build_request this credentials itemIndex = Inr req"
  shows "(\<forall>e. getNodeParameter this ''additionalOwners'' itemIndex = Inl e \<longrightarrow>
            additional_owners_of req = []) \<and>
         (\<forall>a. getNodeParameter this ''additionalOwners'' itemIndex = Inr a \<and>
              length (ownersList a) \<le> 100 \<longrightarrow>
            additional_owners_of req =
              (if a \<noteq> [] then [FormField ''additional_owners'' (join_str '','' (ownersList a))]
               else []))"
  by (simp add: build_request_owners [OF assms] additional_owners_fields_def
      try_additional_owners_def)

lemma ex_build_owners:
  "build_request (owners_context '' 12, 34 ,'') example_credentials 0 =
     Inr (example_request [FormField ''additional_owners'' ''12,34''])"
  by (simp add: stage_defs owners_context_def example_defs example_request_def String_nat_3
      ownersList_def trim_def is_whitespace_def)

lemma ex_build_no_owners:
  "build_request no_owners_context example_credentials 0 = Inr (example_request [])"
  by (simp add: stage_defs no_owners_context_def example_defs example_request_def String_nat_3)

theorem additional_owners_field_witness:
  "build_request no_owners_context example_credentials 0 = Inr (example_request []) \<and>
   getNodeParameter no_owners_context ''additionalOwners'' 0 = Inl not_configured \<and>
   additional_owners_of (example_request []) = [] \<and>
   build_request (owners_context '' 12, 34 ,'') example_credentials 0 =
     Inr (example_request [FormField ''additional_owners'' ''12,34'']) \<and>
   getNodeParameter (owners_context '' 12, 34 ,'') ''additionalOwners'' 0 = Inr '' 12, 34 ,'' \<and>
   length (ownersList '' 12, 34 ,'') \<le> 100 \<and>
   additional_owners_of (example_request [FormField ''additional_owners'' ''12,34'']) =
     [FormField ''additional_owners'' ''12,34'']"
proof -
  have g1: "getNodeParameter no_owners_context ''additionalOwners'' 0 = Inl not_configured"
    by (simp add: no_owners_context_def)
  have g2: "getNodeParameter (owners_context '' 12, 34 ,'') ''additionalOwners'' 0 =
     Inr '' 12, 34 ,''"
    by (simp add: owners_context_def example_parameter_def)
  have l: "ownersList '' 12, 34 ,'' = [''12'', ''34'']"
    by (simp add: ownersList_def trim_def is_whitespace_def)
  from additional_owners_field [OF ex_build_no_owners] g1
  have a1: "additional_owners_of (example_request []) = []" by blast
  from additional_owners_field [OF ex_build_owners] g2 l
  have a2: "additional_owners_of (example_request [FormField ''additional_owners'' ''12,34'']) =
     [FormField ''additional_owners'' ''12,34'']"
    by simp
  from ex_build_no_owners g1 a1 ex_build_owners g2 l a2 show ?thesis by simp
qed

subsection \<open>Classifying the response\<close>









subsection \<open>The signature engine\<close>

text \<open>The model reproduces the examples of the spec for encoding and ordering.\<close>

lemma percent_encode_example: "percent_encode ''a b&c'' = ''a%20b%26c''"
  by (simp add: percent_encode_def unreserved_def hex_digit_def)

lemma normalized_parameters_example:
  "normalized_parameters [(''b'', ''2''), (''a'', ''1''), (''a2'', ''3'')] = ''a=1&a2=3&b=2''"
  by code_simp

lemma sort_mset_cong: "mset xs = mset ys \<Longrightarrow> sort xs = sort ys"
  by (rule properties_for_sort) simp_all

lemma mset_of_mapping:
  assumes "distinct (map fst ps)" and "distinct (map fst qs)" and "map_of ps = map_of qs"
  shows "mset ps = mset qs"
proof -
  have "set ps = set qs" using assms by (simp add: map_of_inject_set)
  moreover have "distinct ps" "distinct qs" using assms(1,2) by (simp_all add: distinct_map)
  ultimately show ?thesis by (simp add: set_eq_iff_mset_eq_distinct)
qed

lemma normalized_parameters_cong:
  "mset ps = mset qs \<Longrightarrow> normalized_parameters ps = normalized_parameters qs"
proof -
  assume "mset ps = mset qs"
  then have "mset (map encode_pair ps) = mset (map encode_pair qs)" by simp
  then have "sort (map encode_pair ps) = sort (map encode_pair qs)" by (rule sort_mset_cong)
  then show ?thesis by (simp add: normalized_parameters_def)
qed

text \<open>
  C9. For fixed credentials, nonce, timestamp, method, url and request parameters, \<open>sign\<close>
  yields one authorization header: the result is a function of these inputs alone, and of
  the request parameters it depends only on the mapping from keys to values, not on the
  order in which the entries are listed.
\<close>

theorem sign_deterministic:
  assumes "distinct (map fst requestParams)" and "distinct (map fst requestParams')"
    and "map_of requestParams = map_of requestParams'"
  shows "sign hmac credentials nonce timestamp httpMethod url requestParams =
         sign hmac credentials nonce timestamp httpMethod url requestParams'"
proof -
  have "mset requestParams = mset requestParams'" using assms by (rule mset_of_mapping)
  then have "mset (oauth_parameters credentials nonce timestamp @ requestParams) =
             mset (oauth_parameters credentials nonce timestamp @ requestParams')"
    by simp
  then have "normalized_parameters (oauth_parameters credentials nonce timestamp @ requestParams) =
             normalized_parameters (oauth_parameters credentials nonce timestamp @ requestParams')"
    by (rule normalized_parameters_cong)
  then have "base_string httpMethod url
               (oauth_parameters credentials nonce timestamp @ requestParams) =
             base_string httpMethod url
               (oauth_parameters credentials nonce timestamp @ requestParams')"
    by (simp add: base_string_def)
  then show ?thesis by (simp add: sign_def)
qed

theorem sign_deterministic_witness:
  "distinct (map fst [(''command'', ''INIT''), (''totalBytes'', ''3'')]) \<and>
   distinct (map fst [(''totalBytes'', ''3''), (''command'', ''INIT'')]) \<and>
   map_of [(''command'', ''INIT''), (''totalBytes'', ''3'')] =
     map_of [(''totalBytes'', ''3''), (''command'', ''INIT'')] \<and>
   sign example_hmac example_oauth ''n1'' ''1700000000'' ''post'' upload_url
     [(''command'', ''INIT''), (''totalBytes'', ''3'')] =
   sign example_hmac example_oauth ''n1'' ''1700000000'' ''post'' upload_url
     [(''totalBytes'', ''3''), (''command'', ''INIT'')]"
proof -
  have d1: "distinct (map fst [(''command'', ''INIT''), (''totalBytes'', ''3'')])" by simp
  have d2: "distinct (map fst [(''totalBytes'', ''3''), (''command'', ''INIT'')])" by simp
  have m: "map_of [(''command'', ''INIT''), (''totalBytes'', ''3'')] =
           map_of [(''totalBytes'', ''3''), (''command'', ''INIT'')]"
    by (auto simp: fun_eq_iff)
  from sign_deterministic [OF d1 d2 m] d1 d2 m show ?thesis by blast
qed

end
